theory Spec2Isabelle
  imports Main "HOL-Library.Word"
begin

section \<open>Subtree representation of the incremental parser (lib/src/subtree.h)\<close>

subsection \<open>Machine types\<close>

type_synonym uint8_t = "8 word"
type_synonym uint16_t = "16 word"
type_synonym uint32_t = "32 word"

text \<open>
  A signed 32-bit integer is kept as its 32 bits; \<open>sint\<close> reads its value.
\<close>

type_synonym int32_t = "32 word"

text \<open>
  Modelled from the spec: the typedefs \<open>TSSymbol\<close> and \<open>TSStateId\<close> (tree_sitter/parser.h)
  and the structs \<open>TSPoint\<close> (tree_sitter/api.h) and \<open>Length\<close> (lib/src/length.h) are
  declared in headers that are not among the sources. A symbol id and a parse state are
  unsigned 16-bit values (the inline form stores the parse state in a \<open>uint16_t\<close>, and
  \<open>TS_TREE_STATE_NONE\<close> is \<open>USHRT_MAX\<close>); a \<open>Length\<close> is the triple of a byte count, a
  row and a column, in the order of the initialisers \<open>{bytes, {row, column}}\<close> that
  \<open>ts_subtree_padding\<close> and \<open>ts_subtree_size\<close> write.
\<close>

type_synonym TSSymbol = uint16_t
type_synonym TSStateId = uint16_t

record TSPoint =
  row :: uint32_t
  column :: uint32_t

record Length =
  bytes :: uint32_t
  extent :: TSPoint

subsection \<open>The serialized state of an external scanner\<close>

text \<open>
  \<open>struct { union { char *long_data; char short_data[24]; }; uint32_t length; }\<close>.
  The anonymous union is the datatype \<open>ExternalScannerData\<close>: \<open>LongData\<close> carries the
  bytes of the heap block that \<open>long_data\<close> points to, \<open>ShortData\<close> the bytes held in
  the array \<open>short_data\<close>. \<open>short_data_capacity\<close> is \<open>sizeof(short_data)\<close>.
\<close>

datatype ExternalScannerData =
  is_long: LongData (long_data: "uint8_t list")
| ShortData (short_data: "uint8_t list")

record ExternalScannerState =
  contents :: ExternalScannerData
  length :: uint32_t

definition short_data_capacity :: nat where
  "short_data_capacity = 24"

text \<open>
  Modelled from the spec: \<open>ts_external_scanner_state_init\<close> and
  \<open>ts_external_scanner_state_data\<close> are only declared in subtree.h; their bodies
  (lib/src/subtree.c) are not among the sources. Section 4.8 of the specification:
  ``\<open>init(buffer, bytes, length)\<close>: copies into inline storage if \<open>length \<le> 24\<close>, else
  heap-allocates. \<open>data()\<close> returns a pointer valid for \<open>length\<close> bytes regardless of
  storage mode.'' The buffer passed in is the list \<open>data\<close>, of which the first
  \<open>length\<close> bytes are copied; the pointer that \<open>data()\<close> returns is modelled by the
  bytes readable through it.
\<close>

definition ts_external_scanner_state_init ::
  "ExternalScannerState \<Rightarrow> uint8_t list \<Rightarrow> uint32_t \<Rightarrow> ExternalScannerState" where
  "ts_external_scanner_state_init self data len =
     (if unat len \<le> short_data_capacity
      then self\<lparr>contents := ShortData (take (unat len) data), length := len\<rparr>
      else self\<lparr>contents := LongData (take (unat len) data), length := len\<rparr>)"

definition ts_external_scanner_state_data :: "ExternalScannerState \<Rightarrow> uint8_t list" where
  "ts_external_scanner_state_data self =
     (if unat (ExternalScannerState.length self) \<le> short_data_capacity
      then short_data (contents self)
      else long_data (contents self))"

subsection \<open>The two representations of a subtree\<close>

text \<open>
  \<open>struct SubtreeInlineData\<close>. The bit \<open>is_inline\<close> of the struct is the tag of the
  union \<open>Subtree\<close> below (it shares its location with the least significant bit of the
  pointer, which is 0 for every valid pointer), so it is the constructor of the
  datatype and not a field of the record; the padding bit \<open>unused\<close> is left out.
  \<open>padding_rows\<close> and \<open>lookahead_bytes\<close> are bit fields of width 4.
\<close>

record SubtreeInlineData =
  visible :: bool
  named :: bool
  extra :: bool
  has_changes :: bool
  is_missing :: bool
  is_keyword :: bool
  symbol :: uint8_t
  parse_state :: uint16_t
  padding_columns :: uint8_t
  padding_rows :: "4 word"
  lookahead_bytes :: "4 word"
  padding_bytes :: uint8_t
  size_bytes :: uint8_t

text \<open>The anonymous struct \<open>first_leaf\<close> of the heap record.\<close>

record FirstLeaf =
  symbol :: TSSymbol
  parse_state :: TSStateId

text \<open>
  \<open>struct SubtreeHeapData\<close>. The members of its payload union (the non-terminal
  fields, \<open>external_scanner_state\<close> and \<open>lookahead_char\<close>) are separate fields here;
  the source selects among them by \<open>child_count\<close> and \<open>symbol\<close>.
\<close>

record SubtreeHeapData =
  ref_count :: uint32_t
  padding :: Length
  size :: Length
  lookahead_bytes :: uint32_t
  error_cost :: uint32_t
  child_count :: uint32_t
  symbol :: TSSymbol
  parse_state :: TSStateId
  visible :: bool
  named :: bool
  extra :: bool
  fragile_left :: bool
  fragile_right :: bool
  has_changes :: bool
  has_external_tokens :: bool
  has_external_scanner_state_change :: bool
  depends_on_column :: bool
  is_missing :: bool
  is_keyword :: bool
  visible_child_count :: uint32_t
  named_child_count :: uint32_t
  node_count :: uint32_t
  dynamic_precedence :: int32_t
  repeat_depth :: uint16_t
  production_id :: uint16_t
  first_leaf :: FirstLeaf
  external_scanner_state :: ExternalScannerState
  lookahead_char :: int32_t

text \<open>
  \<open>union { SubtreeInlineData data; SubtreeHeapData *ptr; }\<close>, once with a pointer to
  const (\<open>Subtree\<close>) and once without (\<open>MutableSubtree\<close>). The test
  \<open>self.data.is_inline\<close> is the discriminator \<open>is_inline\<close>; \<open>self.data\<close> and
  \<open>self.ptr\<close> are the selectors, and \<open>Heap h\<close> stands for a pointer to a record with
  the contents \<open>h\<close>, so that \<open>self.ptr->name\<close> is \<open>name (ptr self)\<close>.
\<close>

datatype MutableSubtree =
  is_inline: MutableInline (data: SubtreeInlineData)
| MutableHeap (ptr: SubtreeHeapData)

datatype Subtree =
  is_inline: Inline (data: SubtreeInlineData)
| Heap (ptr: SubtreeHeapData)

subsection \<open>Accessors\<close>

text \<open>
  \<open>SUBTREE_GET(self, name)\<close> is \<open>self.data.is_inline ? self.data.name : self.ptr->name\<close>;
  the narrow inline fields are converted to the result type of the accessor.
\<close>

definition ts_subtree_symbol :: "Subtree \<Rightarrow> TSSymbol" where
  "ts_subtree_symbol self =
     (if is_inline self then ucast (SubtreeInlineData.symbol (data self))
      else SubtreeHeapData.symbol (ptr self))"





definition ts_subtree_missing :: "Subtree \<Rightarrow> bool" where
  "ts_subtree_missing self =
     (if is_inline self then SubtreeInlineData.is_missing (data self)
      else SubtreeHeapData.is_missing (ptr self))"


definition ts_subtree_parse_state :: "Subtree \<Rightarrow> TSStateId" where
  "ts_subtree_parse_state self =
     (if is_inline self then SubtreeInlineData.parse_state (data self)
      else SubtreeHeapData.parse_state (ptr self))"


definition ts_subtree_leaf_symbol :: "Subtree \<Rightarrow> TSSymbol" where
  "ts_subtree_leaf_symbol self =
     (if is_inline self then ucast (SubtreeInlineData.symbol (data self))
      else if child_count (ptr self) = 0 then SubtreeHeapData.symbol (ptr self)
      else FirstLeaf.symbol (first_leaf (ptr self)))"

definition ts_subtree_leaf_parse_state :: "Subtree \<Rightarrow> TSStateId" where
  "ts_subtree_leaf_parse_state self =
     (if is_inline self then SubtreeInlineData.parse_state (data self)
      else if child_count (ptr self) = 0 then SubtreeHeapData.parse_state (ptr self)
      else FirstLeaf.parse_state (first_leaf (ptr self)))"

definition ts_subtree_padding :: "Subtree \<Rightarrow> Length" where
  "ts_subtree_padding self =
     (if is_inline self
      then \<lparr>bytes = ucast (padding_bytes (data self)),
            extent = \<lparr>row = ucast (padding_rows (data self)),
                      column = ucast (padding_columns (data self))\<rparr>\<rparr>
      else SubtreeHeapData.padding (ptr self))"

definition ts_subtree_size :: "Subtree \<Rightarrow> Length" where
  "ts_subtree_size self =
     (if is_inline self
      then \<lparr>bytes = ucast (size_bytes (data self)),
            extent = \<lparr>row = 0, column = ucast (size_bytes (data self))\<rparr>\<rparr>
      else SubtreeHeapData.size (ptr self))"

text \<open>
  \<open>length_add\<close> is defined in lib/src/length.h, which is not among the sources; the
  two accessors built on it take it as a parameter.
\<close>

definition ts_subtree_total_size :: "(Length \<Rightarrow> Length \<Rightarrow> Length) \<Rightarrow> Subtree \<Rightarrow> Length" where
  "ts_subtree_total_size length_add self =
     length_add (ts_subtree_padding self) (ts_subtree_size self)"

definition ts_subtree_total_bytes :: "(Length \<Rightarrow> Length \<Rightarrow> Length) \<Rightarrow> Subtree \<Rightarrow> uint32_t" where
  "ts_subtree_total_bytes length_add self = bytes (ts_subtree_total_size length_add self)"

definition ts_subtree_child_count :: "Subtree \<Rightarrow> uint32_t" where
  "ts_subtree_child_count self = (if is_inline self then 0 else child_count (ptr self))"

definition ts_subtree_repeat_depth :: "Subtree \<Rightarrow> uint32_t" where
  "ts_subtree_repeat_depth self =
     (if is_inline self then 0 else ucast (repeat_depth (ptr self)))"

definition ts_subtree_is_repetition :: "Subtree \<Rightarrow> uint32_t" where
  "ts_subtree_is_repetition self =
     (if is_inline self then 0
      else if \<not> SubtreeHeapData.named (ptr self) \<and> \<not> SubtreeHeapData.visible (ptr self)
              \<and> child_count (ptr self) \<noteq> 0
      then 1 else 0)"

definition ts_subtree_node_count :: "Subtree \<Rightarrow> uint32_t" where
  "ts_subtree_node_count self =
     (if is_inline self \<or> child_count (ptr self) = 0 then 1 else node_count (ptr self))"

definition ts_subtree_visible_child_count :: "Subtree \<Rightarrow> uint32_t" where
  "ts_subtree_visible_child_count self =
     (if ts_subtree_child_count self > 0 then visible_child_count (ptr self) else 0)"

text \<open>
  \<open>ERROR_COST_PER_MISSING_TREE\<close> and \<open>ERROR_COST_PER_RECOVERY\<close> are macros of
  lib/src/error_costs.h, which is not among the sources: they are parameters.
\<close>

definition ts_subtree_error_cost :: "uint32_t \<Rightarrow> uint32_t \<Rightarrow> Subtree \<Rightarrow> uint32_t" where
  "ts_subtree_error_cost ERROR_COST_PER_MISSING_TREE ERROR_COST_PER_RECOVERY self =
     (if ts_subtree_missing self
      then ERROR_COST_PER_MISSING_TREE + ERROR_COST_PER_RECOVERY
      else if is_inline self then 0 else error_cost (ptr self))"

definition ts_subtree_dynamic_precedence :: "Subtree \<Rightarrow> int32_t" where
  "ts_subtree_dynamic_precedence self =
     (if is_inline self \<or> child_count (ptr self) = 0 then 0
      else dynamic_precedence (ptr self))"

definition ts_subtree_production_id :: "Subtree \<Rightarrow> uint16_t" where
  "ts_subtree_production_id self =
     (if ts_subtree_child_count self > 0 then production_id (ptr self) else 0)"







text \<open>
  \<open>ts_builtin_sym_error\<close> and \<open>ts_builtin_sym_end\<close> are constants of
  tree_sitter/parser.h, which is not among the sources: they are parameters.
\<close>

definition ts_subtree_is_error :: "TSSymbol \<Rightarrow> Subtree \<Rightarrow> bool" where
  "ts_subtree_is_error ts_builtin_sym_error self =
     (ts_subtree_symbol self = ts_builtin_sym_error)"

definition ts_subtree_is_eof :: "TSSymbol \<Rightarrow> Subtree \<Rightarrow> bool" where
  "ts_subtree_is_eof ts_builtin_sym_end self = (ts_subtree_symbol self = ts_builtin_sym_end)"

text \<open>
  \<open>result.data = self.data\<close>: both unions have the size of their member \<open>data\<close>, so the
  assignment copies the whole content of \<open>self\<close>, the tag included, into the union of
  the other type.
\<close>

definition ts_subtree_from_mut :: "MutableSubtree \<Rightarrow> Subtree" where
  "ts_subtree_from_mut self =
     (if MutableSubtree.is_inline self then Inline (MutableSubtree.data self)
      else Heap (MutableSubtree.ptr self))"

definition ts_subtree_to_mut_unsafe :: "Subtree \<Rightarrow> MutableSubtree" where
  "ts_subtree_to_mut_unsafe self =
     (if is_inline self then MutableInline (data self) else MutableHeap (ptr self))"

subsection \<open>Construction of a parent node: the node count\<close>

text \<open>
  Modelled from the spec: \<open>ts_subtree_new_node\<close> and \<open>ts_subtree_summarize_children\<close>
  are only declared in subtree.h; their bodies (lib/src/subtree.c) are not among the
  sources. Section 4.3 of the specification: \<open>new_node\<close> computes ``node_count as
  1+\<Sigma>children''; section 3: ``for non-terminals it equals 1 + sum of children's
  node_count''. Of the fields of the new heap record only \<open>child_count\<close> (the number of
  children, a \<open>uint32_t\<close>) and \<open>node_count\<close> are modelled; the count of each child is
  read with \<open>ts_subtree_node_count\<close>, and the sum is taken in \<open>uint32_t\<close>.
\<close>

definition ts_subtree_new_node_counts :: "SubtreeHeapData \<Rightarrow> Subtree list \<Rightarrow> SubtreeHeapData" where
  "ts_subtree_new_node_counts self children =
     self\<lparr>child_count := of_nat (List.length children),
          node_count := 1 + sum_list (map ts_subtree_node_count children)\<rparr>"

subsection \<open>The same values in the two representations\<close>

text \<open>
  The relation between an inline record and a heap record that the specification states
  for the two forms of one leaf (section 8, inline/heap equivalence): the same symbol,
  the same flags (the six that both forms store), the same size and padding (the narrow
  inline fields widened, the size on a single row with as many columns as bytes), the
  same parse state, and no children. All other fields of the heap record are left free.
\<close>

definition same_listed_values :: "SubtreeInlineData \<Rightarrow> SubtreeHeapData \<Rightarrow> bool" where
  "same_listed_values d h \<longleftrightarrow>
     SubtreeHeapData.symbol h = ucast (SubtreeInlineData.symbol d)
     \<and> SubtreeHeapData.visible h = SubtreeInlineData.visible d
     \<and> SubtreeHeapData.named h = SubtreeInlineData.named d
     \<and> SubtreeHeapData.extra h = SubtreeInlineData.extra d
     \<and> SubtreeHeapData.has_changes h = SubtreeInlineData.has_changes d
     \<and> SubtreeHeapData.is_missing h = SubtreeInlineData.is_missing d
     \<and> SubtreeHeapData.is_keyword h = SubtreeInlineData.is_keyword d
     \<and> SubtreeHeapData.size h =
          \<lparr>bytes = ucast (size_bytes d), extent = \<lparr>row = 0, column = ucast (size_bytes d)\<rparr>\<rparr>
     \<and> SubtreeHeapData.padding h =
          \<lparr>bytes = ucast (padding_bytes d),
           extent = \<lparr>row = ucast (padding_rows d), column = ucast (padding_columns d)\<rparr>\<rparr>
     \<and> SubtreeHeapData.parse_state h = SubtreeInlineData.parse_state d
     \<and> child_count h = 0"

subsection \<open>Example values\<close>

text \<open>
  A visible, named inline leaf with symbol 7 in parse state 12, of 5 bytes after a
  padding of 3 bytes (1 row, 2 columns); an empty scanner state; the heap leaf with the
  same values as the inline leaf; and a parent node with two children and three nodes
  whose first leaf is that leaf.
\<close>

definition example_inline :: SubtreeInlineData where
  "example_inline =
     \<lparr>SubtreeInlineData.visible = True, named = True, extra = False, has_changes = False,
      is_missing = False, is_keyword = False, symbol = 7, parse_state = 12,
      padding_columns = 2, padding_rows = 1, lookahead_bytes = 1, padding_bytes = 3,
      size_bytes = 5\<rparr>"

definition example_state :: ExternalScannerState where
  "example_state = \<lparr>contents = ShortData [], length = 0\<rparr>"

definition example_heap :: SubtreeHeapData where
  "example_heap =
     \<lparr>ref_count = 1,
      padding = \<lparr>bytes = 3, extent = \<lparr>row = 1, column = 2\<rparr>\<rparr>,
      size = \<lparr>bytes = 5, extent = \<lparr>row = 0, column = 5\<rparr>\<rparr>,
      lookahead_bytes = 1, error_cost = 0, child_count = 0, symbol = 7, parse_state = 12,
      visible = True, named = True, extra = False, fragile_left = False,
      fragile_right = False, has_changes = False, has_external_tokens = False,
      has_external_scanner_state_change = False, depends_on_column = False,
      is_missing = False, is_keyword = False,
      visible_child_count = 0, named_child_count = 0, node_count = 0,
      dynamic_precedence = 0, repeat_depth = 0, production_id = 0,
      first_leaf = \<lparr>FirstLeaf.symbol = 0, parse_state = 0\<rparr>,
      external_scanner_state = example_state, lookahead_char = 0\<rparr>"

definition example_parent :: SubtreeHeapData where
  "example_parent =
     example_heap\<lparr>child_count := 2, SubtreeHeapData.symbol := 40,
                  SubtreeHeapData.parse_state := 3, node_count := 3,
                  first_leaf := \<lparr>FirstLeaf.symbol = 7, parse_state = 12\<rparr>\<rparr>"


section \<open>Properties\<close>

subsection \<open>Auxiliary facts\<close>

text \<open>Every inline record has heap records with the same values.\<close>

lemma same_listed_values_exists:
  "same_listed_values d
     (h\<lparr>SubtreeHeapData.symbol := ucast (SubtreeInlineData.symbol d),
        SubtreeHeapData.visible := SubtreeInlineData.visible d,
        SubtreeHeapData.named := SubtreeInlineData.named d,
        SubtreeHeapData.extra := SubtreeInlineData.extra d,
        SubtreeHeapData.has_changes := SubtreeInlineData.has_changes d,
        SubtreeHeapData.is_missing := SubtreeInlineData.is_missing d,
        SubtreeHeapData.is_keyword := SubtreeInlineData.is_keyword d,
        SubtreeHeapData.size :=
          \<lparr>bytes = ucast (size_bytes d), extent = \<lparr>row = 0, column = ucast (size_bytes d)\<rparr>\<rparr>,
        SubtreeHeapData.padding :=
          \<lparr>bytes = ucast (padding_bytes d),
           extent = \<lparr>row = ucast (padding_rows d), column = ucast (padding_columns d)\<rparr>\<rparr>,
        SubtreeHeapData.parse_state := SubtreeInlineData.parse_state d,
        child_count := 0\<rparr>)"
  by (simp add: same_listed_values_def)

text \<open>A non-empty sequence of fewer than \<open>2 ^ 32\<close> children has a non-zero count.\<close>

lemma child_count_of_length:
  assumes "children \<noteq> []" and "List.length children < 2 ^ 32"
  shows "(of_nat (List.length children) :: uint32_t) \<noteq> 0"
  using assms by (simp add: of_nat_neq_0)


subsection \<open>Inline and heap form\<close>




subsection \<open>Error cost\<close>

text \<open>
  Claim C2. On a subtree whose \<open>is_missing\<close> flag is set, inline or heap,
  \<open>ts_subtree_error_cost\<close> is the sum
  \<open>ERROR_COST_PER_MISSING_TREE + ERROR_COST_PER_RECOVERY\<close>, whatever the stored field
  \<open>error_cost\<close> holds; on an inline subtree that is not missing it is 0; on a heap
  subtree that is not missing it is the stored field \<open>error_cost\<close>.
\<close>

theorem error_cost_missing_or_stored:
  "(SubtreeInlineData.is_missing d \<longrightarrow> ts_subtree_error_cost M R (Inline d) = M + R)
   \<and> (SubtreeHeapData.is_missing h \<longrightarrow>
        ts_subtree_error_cost M R (Heap (h\<lparr>error_cost := e\<rparr>)) = M + R)
   \<and> (\<not> SubtreeInlineData.is_missing d \<longrightarrow> ts_subtree_error_cost M R (Inline d) = 0)
   \<and> (\<not> SubtreeHeapData.is_missing h \<longrightarrow>
        ts_subtree_error_cost M R (Heap h) = error_cost h)"
  by (simp add: ts_subtree_error_cost_def ts_subtree_missing_def)

theorem error_cost_missing_or_stored_witness:
  "SubtreeInlineData.is_missing (example_inline\<lparr>SubtreeInlineData.is_missing := True\<rparr>)
   \<and> ts_subtree_error_cost 110 500
        (Inline (example_inline\<lparr>SubtreeInlineData.is_missing := True\<rparr>)) = 610
   \<and> SubtreeHeapData.is_missing (example_heap\<lparr>SubtreeHeapData.is_missing := True\<rparr>)
   \<and> ts_subtree_error_cost 110 500
        (Heap (example_heap\<lparr>SubtreeHeapData.is_missing := True, error_cost := 77\<rparr>)) = 610
   \<and> \<not> SubtreeInlineData.is_missing example_inline
   \<and> ts_subtree_error_cost 110 500 (Inline example_inline) = 0
   \<and> \<not> SubtreeHeapData.is_missing (example_heap\<lparr>error_cost := 77\<rparr>)
   \<and> ts_subtree_error_cost 110 500 (Heap (example_heap\<lparr>error_cost := 77\<rparr>)) = 77"
  using error_cost_missing_or_stored
          [of "example_inline\<lparr>SubtreeInlineData.is_missing := True\<rparr>"
              110 500 "example_heap\<lparr>SubtreeHeapData.is_missing := True\<rparr>" 77]
        error_cost_missing_or_stored
          [of example_inline 110 500 "example_heap\<lparr>error_cost := 77\<rparr>" 0]
  by (simp add: example_inline_def example_heap_def)

subsection \<open>Total size\<close>

text \<open>
  Claim C3. The total span of a subtree, inline or heap, is its padding plus its size:
  \<open>ts_subtree_total_size\<close> is \<open>length_add\<close> of \<open>ts_subtree_padding\<close> and
  \<open>ts_subtree_size\<close>, and \<open>ts_subtree_total_bytes\<close> is the component \<open>bytes\<close> of
  that sum.
\<close>

theorem total_size_is_padding_plus_size:
  "ts_subtree_total_size length_add self
     = length_add (ts_subtree_padding self) (ts_subtree_size self)
   \<and> ts_subtree_total_bytes length_add self
     = bytes (length_add (ts_subtree_padding self) (ts_subtree_size self))
   \<and> ts_subtree_total_size length_add (Inline d)
     = length_add
         \<lparr>bytes = ucast (padding_bytes d),
          extent = \<lparr>row = ucast (padding_rows d), column = ucast (padding_columns d)\<rparr>\<rparr>
         \<lparr>bytes = ucast (size_bytes d), extent = \<lparr>row = 0, column = ucast (size_bytes d)\<rparr>\<rparr>
   \<and> ts_subtree_total_size length_add (Heap h)
     = length_add (SubtreeHeapData.padding h) (SubtreeHeapData.size h)"
  by (simp add: ts_subtree_total_size_def ts_subtree_total_bytes_def ts_subtree_padding_def
      ts_subtree_size_def)

subsection \<open>Children\<close>

text \<open>
  Claim C4. A subtree with children is never inline: \<open>ts_subtree_child_count\<close> is 0 on
  every inline subtree, so a subtree with a positive child count is in heap form; and
  the accessors that depend on children (\<open>ts_subtree_visible_child_count\<close>,
  \<open>ts_subtree_production_id\<close>, \<open>ts_subtree_dynamic_precedence\<close>,
  \<open>ts_subtree_repeat_depth\<close>) return 0 on inline subtrees.
\<close>

theorem inline_has_no_children:
  "ts_subtree_child_count (Inline d) = 0
   \<and> (ts_subtree_child_count self > 0 \<longrightarrow> \<not> is_inline self)
   \<and> ts_subtree_visible_child_count (Inline d) = 0
   \<and> ts_subtree_production_id (Inline d) = 0
   \<and> ts_subtree_dynamic_precedence (Inline d) = 0
   \<and> ts_subtree_repeat_depth (Inline d) = 0"
  by (simp add: ts_subtree_child_count_def ts_subtree_visible_child_count_def
      ts_subtree_production_id_def ts_subtree_dynamic_precedence_def ts_subtree_repeat_depth_def)

theorem inline_has_no_children_witness:
  "ts_subtree_child_count (Heap (example_heap\<lparr>child_count := 2\<rparr>)) > 0
   \<and> \<not> is_inline (Heap (example_heap\<lparr>child_count := 2\<rparr>))
   \<and> ts_subtree_child_count (Inline example_inline) = 0
   \<and> ts_subtree_visible_child_count (Inline example_inline) = 0
   \<and> ts_subtree_production_id (Inline example_inline) = 0
   \<and> ts_subtree_dynamic_precedence (Inline example_inline) = 0
   \<and> ts_subtree_repeat_depth (Inline example_inline) = 0"
proof -
  have c: "ts_subtree_child_count (Heap (example_heap\<lparr>child_count := 2\<rparr>)) > 0"
    by (simp add: ts_subtree_child_count_def)
  show ?thesis
    using c inline_has_no_children
              [of example_inline "Heap (example_heap\<lparr>child_count := 2\<rparr>)"]
    by simp
qed

subsection \<open>Leaf symbol and leaf parse state\<close>

text \<open>
  Claim C5. \<open>ts_subtree_leaf_symbol\<close> and \<open>ts_subtree_leaf_parse_state\<close> return the
  symbol and the parse state of the node itself when it is a leaf (inline form, or heap
  form with \<open>child_count = 0\<close>), and those cached in \<open>first_leaf\<close> when it is a
  non-terminal (\<open>child_count > 0\<close>).
\<close>

theorem leaf_accessors:
  "ts_subtree_leaf_symbol (Inline d) = ucast (SubtreeInlineData.symbol d)
   \<and> ts_subtree_leaf_parse_state (Inline d) = SubtreeInlineData.parse_state d
   \<and> (child_count h = 0 \<longrightarrow>
        ts_subtree_leaf_symbol (Heap h) = SubtreeHeapData.symbol h
        \<and> ts_subtree_leaf_parse_state (Heap h) = SubtreeHeapData.parse_state h)
   \<and> (child_count h > 0 \<longrightarrow>
        ts_subtree_leaf_symbol (Heap h) = FirstLeaf.symbol (first_leaf h)
        \<and> ts_subtree_leaf_parse_state (Heap h) = FirstLeaf.parse_state (first_leaf h))
   \<and> (ts_subtree_child_count self = 0 \<longrightarrow>
        ts_subtree_leaf_symbol self = ts_subtree_symbol self
        \<and> ts_subtree_leaf_parse_state self = ts_subtree_parse_state self)"
  by (auto simp add: ts_subtree_leaf_symbol_def ts_subtree_leaf_parse_state_def
      ts_subtree_child_count_def ts_subtree_symbol_def ts_subtree_parse_state_def)

theorem leaf_accessors_witness:
  "child_count example_heap = 0
   \<and> ts_subtree_leaf_symbol (Heap example_heap) = 7
   \<and> ts_subtree_leaf_parse_state (Heap example_heap) = 12
   \<and> child_count example_parent > 0
   \<and> SubtreeHeapData.symbol example_parent = 40
   \<and> ts_subtree_leaf_symbol (Heap example_parent) = 7
   \<and> ts_subtree_leaf_parse_state (Heap example_parent) = 12
   \<and> ts_subtree_child_count (Inline example_inline) = 0
   \<and> ts_subtree_leaf_symbol (Inline example_inline) = 7
   \<and> ts_subtree_symbol (Inline example_inline) = 7"
proof -
  have a: "child_count example_heap = 0"
    by (simp add: example_heap_def)
  have b: "child_count example_parent > 0"
    by (simp add: example_parent_def)
  have c: "ts_subtree_child_count (Inline example_inline) = 0"
    by (simp add: ts_subtree_child_count_def)
  show ?thesis
    using a b c
      leaf_accessors [of example_inline example_heap "Inline example_inline"]
      leaf_accessors [of example_inline example_parent "Inline example_inline"]
    by (simp add: example_inline_def example_heap_def example_parent_def)
qed

subsection \<open>External scanner state\<close>

text \<open>
  Claim C6. A scanner state of at most 24 bytes is stored in the inline array and a
  longer one in a heap block; the threshold is exactly 24 bytes; in both cases
  \<open>ts_external_scanner_state_data\<close> gives access to \<open>length\<close> bytes, the ones passed
  to \<open>ts_external_scanner_state_init\<close>. The buffer passed in holds at least \<open>length\<close>
  bytes.
\<close>

theorem scanner_state_threshold:
  assumes "unat len \<le> List.length buffer"
  shows "(unat len \<le> 24 \<longrightarrow>
            contents (ts_external_scanner_state_init self buffer len)
              = ShortData (take (unat len) buffer))
    \<and> (24 < unat len \<longrightarrow>
            contents (ts_external_scanner_state_init self buffer len)
              = LongData (take (unat len) buffer))
    \<and> is_long (contents (ts_external_scanner_state_init self buffer len)) = (24 < unat len)
    \<and> ExternalScannerState.length (ts_external_scanner_state_init self buffer len) = len
    \<and> ts_external_scanner_state_data (ts_external_scanner_state_init self buffer len)
         = take (unat len) buffer
    \<and> List.length (ts_external_scanner_state_data
                      (ts_external_scanner_state_init self buffer len)) = unat len"
  using assms
  by (simp add: ts_external_scanner_state_init_def ts_external_scanner_state_data_def
      short_data_capacity_def)

theorem scanner_state_threshold_witness:
  "unat (24 :: uint32_t) \<le> List.length (replicate 30 (65 :: uint8_t))
   \<and> unat (24 :: uint32_t) \<le> 24
   \<and> contents (ts_external_scanner_state_init example_state (replicate 30 65) 24)
        = ShortData (replicate 24 65)
   \<and> unat (25 :: uint32_t) \<le> List.length (replicate 30 (65 :: uint8_t))
   \<and> 24 < unat (25 :: uint32_t)
   \<and> contents (ts_external_scanner_state_init example_state (replicate 30 65) 25)
        = LongData (replicate 25 65)
   \<and> ts_external_scanner_state_data
        (ts_external_scanner_state_init example_state (replicate 30 65) 25)
        = replicate 25 65"
proof -
  have a: "unat (24 :: uint32_t) \<le> List.length (replicate 30 (65 :: uint8_t))"
    by simp
  have b: "unat (25 :: uint32_t) \<le> List.length (replicate 30 (65 :: uint8_t))"
    by simp
  show ?thesis
    using scanner_state_threshold [OF a, of example_state]
      scanner_state_threshold [OF b, of example_state]
    by simp
qed

subsection \<open>Node count\<close>

text \<open>
  Claim C7. \<open>ts_subtree_node_count\<close> is 1 on every leaf (inline form, or heap form
  with \<open>child_count = 0\<close>); on a non-terminal (\<open>child_count > 0\<close>) it is the stored
  field \<open>node_count\<close>, which for a node constructed over a non-empty sequence of
  children is 1 plus the sum of the node counts of the children.
\<close>

theorem node_count_leaf_and_nonterminal:
  "ts_subtree_node_count (Inline d) = 1
   \<and> (child_count h = 0 \<longrightarrow> ts_subtree_node_count (Heap h) = 1)
   \<and> (child_count h > 0 \<longrightarrow> ts_subtree_node_count (Heap h) = node_count h)
   \<and> (children \<noteq> [] \<and> List.length children < 2 ^ 32 \<longrightarrow>
        ts_subtree_child_count (Heap (ts_subtree_new_node_counts h children)) > 0
        \<and> ts_subtree_node_count (Heap (ts_subtree_new_node_counts h children))
            = node_count (ts_subtree_new_node_counts h children)
        \<and> node_count (ts_subtree_new_node_counts h children)
            = 1 + sum_list (map ts_subtree_node_count children))"
proof -
  have "children \<noteq> [] \<and> List.length children < 2 ^ 32 \<longrightarrow>
          child_count (ts_subtree_new_node_counts h children) \<noteq> 0"
    using child_count_of_length [of children]
    by (simp add: ts_subtree_new_node_counts_def)
  then show ?thesis
    by (auto simp add: ts_subtree_node_count_def ts_subtree_child_count_def
        ts_subtree_new_node_counts_def word_gt_0)
qed

theorem node_count_leaf_and_nonterminal_witness:
  "child_count example_heap = 0
   \<and> ts_subtree_node_count (Heap example_heap) = 1
   \<and> child_count example_parent > 0
   \<and> ts_subtree_node_count (Heap example_parent) = 3
   \<and> [Inline example_inline, Heap example_parent] \<noteq> []
   \<and> List.length [Inline example_inline, Heap example_parent] < 2 ^ 32
   \<and> ts_subtree_node_count
        (Heap (ts_subtree_new_node_counts example_heap
                 [Inline example_inline, Heap example_parent])) = 5"
proof -
  have a: "child_count example_heap = 0"
    by (simp add: example_heap_def)
  have b: "child_count example_parent > 0"
    by (simp add: example_parent_def)
  have c: "[Inline example_inline, Heap example_parent] \<noteq> []
           \<and> List.length [Inline example_inline, Heap example_parent] < 2 ^ 32"
    by simp
  show ?thesis
    using a b c
      node_count_leaf_and_nonterminal
        [of example_inline example_heap "[Inline example_inline, Heap example_parent]"]
      node_count_leaf_and_nonterminal
        [of example_inline example_parent "[Inline example_inline, Heap example_parent]"]
    by (simp add: ts_subtree_node_count_def example_parent_def)
qed

subsection \<open>Error and end-of-input symbols\<close>

text \<open>
  Claim C8. \<open>ts_subtree_is_error\<close> holds exactly when the symbol of the subtree, as
  \<open>ts_subtree_symbol\<close> reads it in either form, is the reserved error symbol, and
  \<open>ts_subtree_is_eof\<close> exactly when it is the reserved end-of-input symbol.
\<close>

theorem is_error_is_eof_by_symbol:
  "ts_subtree_is_error ts_builtin_sym_error self
     = (ts_subtree_symbol self = ts_builtin_sym_error)
   \<and> ts_subtree_is_eof ts_builtin_sym_end self
     = (ts_subtree_symbol self = ts_builtin_sym_end)
   \<and> ts_subtree_is_error ts_builtin_sym_error (Inline d)
     = (ucast (SubtreeInlineData.symbol d) = ts_builtin_sym_error)
   \<and> ts_subtree_is_error ts_builtin_sym_error (Heap h)
     = (SubtreeHeapData.symbol h = ts_builtin_sym_error)
   \<and> ts_subtree_is_eof ts_builtin_sym_end (Inline d)
     = (ucast (SubtreeInlineData.symbol d) = ts_builtin_sym_end)
   \<and> ts_subtree_is_eof ts_builtin_sym_end (Heap h)
     = (SubtreeHeapData.symbol h = ts_builtin_sym_end)"
  by (simp add: ts_subtree_is_error_def ts_subtree_is_eof_def ts_subtree_symbol_def)

subsection \<open>Size and padding of the inline form\<close>

text \<open>
  Claim C9. On an inline subtree \<open>ts_subtree_size\<close> returns a \<open>Length\<close> with row 0
  and with as many columns as bytes, both read from the field \<open>size_bytes\<close>: no inline
  subtree has a size that spans a row or whose column differs from its byte count. Its
  padding has a byte, a row and a column component that are stored independently.
\<close>

theorem inline_size_single_row:
  "row (extent (ts_subtree_size (Inline d))) = 0
   \<and> column (extent (ts_subtree_size (Inline d))) = bytes (ts_subtree_size (Inline d))
   \<and> bytes (ts_subtree_size (Inline d)) = ucast (size_bytes d)
   \<and> (row (extent l) \<noteq> 0 \<or> column (extent l) \<noteq> bytes l \<longrightarrow>
        ts_subtree_size (Inline d) \<noteq> l)
   \<and> ts_subtree_padding
        (Inline (d\<lparr>padding_bytes := pb, padding_rows := pr, padding_columns := pc\<rparr>))
       = \<lparr>bytes = ucast pb, extent = \<lparr>row = ucast pr, column = ucast pc\<rparr>\<rparr>"
  by (auto simp add: ts_subtree_size_def ts_subtree_padding_def)

theorem inline_size_single_row_witness:
  "row (extent \<lparr>bytes = 5, extent = \<lparr>row = 1, column = 2\<rparr>\<rparr>) \<noteq> 0
   \<and> ts_subtree_size (Inline example_inline)
        \<noteq> \<lparr>bytes = 5, extent = \<lparr>row = 1, column = 2\<rparr>\<rparr>
   \<and> ts_subtree_size (Inline example_inline)
        = \<lparr>bytes = 5, extent = \<lparr>row = 0, column = 5\<rparr>\<rparr>
   \<and> ts_subtree_padding (Inline (example_inline\<lparr>padding_bytes := 9, padding_rows := 4,
        padding_columns := 6\<rparr>)) = \<lparr>bytes = 9, extent = \<lparr>row = 4, column = 6\<rparr>\<rparr>"
proof -
  have a: "row (extent \<lparr>bytes = 5, extent = \<lparr>row = 1, column = 2\<rparr>\<rparr>) \<noteq> 0"
    by simp
  show ?thesis
    using a inline_size_single_row
      [where d = example_inline and l = "\<lparr>bytes = 5, extent = \<lparr>row = 1, column = 2\<rparr>\<rparr>"
         and pb = 9 and pr = 4 and pc = 6]
    by (simp add: ts_subtree_size_def example_inline_def)
qed

subsection \<open>Shared and mutable view\<close>

text \<open>
  Claim C10. \<open>ts_subtree_from_mut\<close> and \<open>ts_subtree_to_mut_unsafe\<close> are inverse to
  each other: converting a \<open>Subtree\<close> to the mutable view and back returns it
  unchanged, and so does converting a \<open>MutableSubtree\<close> to the shared view and back.
  Both keep the form and the content, so no function of a subtree, in particular no
  accessor, can tell the difference.
\<close>

theorem mutable_view_round_trip:
  "ts_subtree_from_mut (ts_subtree_to_mut_unsafe s) = s
   \<and> ts_subtree_to_mut_unsafe (ts_subtree_from_mut m) = m
   \<and> ts_subtree_from_mut (MutableInline d) = Inline d
   \<and> ts_subtree_from_mut (MutableHeap h) = Heap h
   \<and> ts_subtree_to_mut_unsafe (Inline d) = MutableInline d
   \<and> ts_subtree_to_mut_unsafe (Heap h) = MutableHeap h
   \<and> is_inline (ts_subtree_from_mut m) = MutableSubtree.is_inline m
   \<and> MutableSubtree.is_inline (ts_subtree_to_mut_unsafe s) = is_inline s
   \<and> accessor (ts_subtree_from_mut (ts_subtree_to_mut_unsafe s)) = accessor s"
proof -
  have a: "ts_subtree_from_mut (ts_subtree_to_mut_unsafe s) = s"
    by (cases s) (simp_all add: ts_subtree_from_mut_def ts_subtree_to_mut_unsafe_def)
  have b: "ts_subtree_to_mut_unsafe (ts_subtree_from_mut m) = m"
    by (cases m) (simp_all add: ts_subtree_from_mut_def ts_subtree_to_mut_unsafe_def)
  show ?thesis
    using a b by (simp add: ts_subtree_from_mut_def ts_subtree_to_mut_unsafe_def)
qed

end
